theory Spec2Isabelle
  imports Complex_Main "HOL-Library.Sublist"
begin

section \<open>The cost optimizer of \<^verbatim>\<open>src/streamlit/src/ai/llm/optimizer.py\<close>\<close>

text \<open>
  A shallow embedding of the class \<^verbatim>\<open>CostOptimizer\<close>. Conventions:
  \<^item> a Python \<^verbatim>\<open>int\<close> is an \<open>int\<close>; a Python \<^verbatim>\<open>float\<close> is a \<open>real\<close>, so
    every float operation is taken exact (no rounding, no infinities, no NaN);
  \<^item> a calendar date (\<^verbatim>\<open>datetime.now().date()\<close>) is its day number, an \<open>int\<close>;
    the clock is not part of the object, so every method that reads it takes
    the date it reads as the argument \<open>today\<close>;
  \<^item> a Python \<^verbatim>\<open>str\<close> is the list of its code points, \<open>'c list\<close>; the
    dictionary keys and the texts of the analysis data are \<open>string\<close>s;
  \<^item> the analysis data is the nested mapping of the data model: each section
    is an optional record, each key of a section an optional field, a number
    where the code compares or adds. \<open>None\<close> is the absent key. Values of
    another Python type (on which the code raises \<^verbatim>\<open>TypeError\<close> or
    \<^verbatim>\<open>AttributeError\<close>) are outside this input type;
  \<^item> \<^verbatim>\<open>print\<close> calls are left out;
  \<^item> a leading underscore of a method name is dropped.
\<close>

subsection \<open>Python primitives\<close>

datatype py_error = ZeroDivisionError

text \<open>\<^verbatim>\<open>int(x)\<close> of a float: truncation towards zero.\<close>

definition py_int :: "real \<Rightarrow> int" where
  "py_int x = (if 0 \<le> x then \<lfloor>x\<rfloor> else \<lceil>x\<rceil>)"

text \<open>
  The slice \<^verbatim>\<open>s[:n]\<close>: the first \<open>n\<close> items when \<open>n\<close> is not negative,
  all but the last \<open>-n\<close> items otherwise.
\<close>

definition py_slice_to :: "'c list \<Rightarrow> int \<Rightarrow> 'c list" where
  "py_slice_to s n = (if 0 \<le> n then take (nat n) s else take (nat (int (length s) + n)) s)"

text \<open>\<^verbatim>\<open>d.get(key, default)\<close> on an optional field.\<close>

definition get_default :: "'a option \<Rightarrow> 'a \<Rightarrow> 'a" where
  "get_default v d = (case v of None \<Rightarrow> d | Some x \<Rightarrow> x)"

text \<open>
  Truth value of \<^verbatim>\<open>meta_tags.get("meta_description")\<close>: an absent key gives
  \<^verbatim>\<open>None\<close>, which is false, and so is the empty text.
\<close>

definition truthy :: "string option \<Rightarrow> bool" where
  "truthy v = (case v of None \<Rightarrow> False | Some s \<Rightarrow> s \<noteq> [])"

subsection \<open>The analysis data\<close>

record meta_tags_dict =
  meta_description :: "string option"
  title :: "string option"

text \<open>
  The \<^verbatim>\<open>headings\<close> dictionary maps a heading level to its count; it is given
  by the list of its items, since the code adds up all its values.
\<close>

type_synonym headings_dict = "(string \<times> real) list"

record tech_dict =
  meta_tags :: "meta_tags_dict option"
  headings :: "headings_dict option"

record content_dict =
  word_count :: "real option"
  paragraphs :: "real option"

record scraped_dict =
  content :: "content_dict option"

record metrics_dict =
  total_links :: "real option"
  spam_score :: "real option"

record moz_dict =
  metrics :: "metrics_dict option"

record analysis_data =
  technical_seo :: "tech_dict option"
  scraped_data :: "scraped_dict option"
  moz_data :: "moz_dict option"

text \<open>The empty dictionary \<^verbatim>\<open>{}\<close> at each of these types.\<close>

definition empty_tech :: tech_dict where
  "empty_tech = \<lparr>meta_tags = None, headings = None\<rparr>"

definition empty_content :: content_dict where
  "empty_content = \<lparr>word_count = None, paragraphs = None\<rparr>"

definition empty_scraped :: scraped_dict where
  "empty_scraped = \<lparr>content = None\<rparr>"

definition empty_metrics :: metrics_dict where
  "empty_metrics = \<lparr>total_links = None, spam_score = None\<rparr>"

definition empty_moz :: moz_dict where
  "empty_moz = \<lparr>metrics = None\<rparr>"

subsection \<open>The optimizer object\<close>

record usage =
  requests :: int
  tokens :: int
  cost :: real

record config =
  max_requests_per_day :: "int option"
  cfg_token_buffer :: "real option"
  cfg_complexity_threshold :: "real option"

record cost_optimizer =
  max_daily_requests :: int
  token_buffer :: real
  complexity_threshold :: real
  usage_history :: "int \<rightharpoonup> usage"
  last_reset :: int

definition empty_config :: config where
  "empty_config = \<lparr>max_requests_per_day = None, cfg_token_buffer = None,
     cfg_complexity_threshold = None\<rparr>"

text \<open>\<^verbatim>\<open>__init__\<close> (lines 9-19), run on the date \<open>today\<close>.\<close>

definition init :: "config option \<Rightarrow> int \<Rightarrow> cost_optimizer" where
  "init config_arg today =
     (let config = (case config_arg of None \<Rightarrow> empty_config | Some c \<Rightarrow> c) in
      \<lparr>max_daily_requests = get_default (max_requests_per_day config) 100,
       token_buffer = get_default (cfg_token_buffer config) 0.9,
       complexity_threshold = get_default (cfg_complexity_threshold config) 0.2,
       usage_history = Map.empty,
       last_reset = today\<rparr>)"

definition zero_usage :: usage where
  "zero_usage = \<lparr>requests = 0, tokens = 0, cost = 0\<rparr>"

subsection \<open>Usage tracking (lines 40-68)\<close>

definition track_usage :: "int \<Rightarrow> int \<Rightarrow> real \<Rightarrow> cost_optimizer \<Rightarrow> cost_optimizer" where
  "track_usage today tokens_used cost_arg self =
     (let self1 = (if today > last_reset self
                   then self\<lparr>usage_history := Map.empty, last_reset := today\<rparr>
                   else self);
          self2 = (if usage_history self1 today = None
                   then self1\<lparr>usage_history := (usage_history self1)(today \<mapsto> zero_usage)\<rparr>
                   else self1);
          r = get_default (usage_history self2 today) zero_usage
      in self2\<lparr>usage_history := (usage_history self2)(today \<mapsto>
            \<lparr>requests = requests r + 1,
             tokens = tokens r + tokens_used,
             cost = cost r + cost_arg\<rparr>)\<rparr>)"

definition get_usage_stats :: "int \<Rightarrow> cost_optimizer \<Rightarrow> usage" where
  "get_usage_stats today self = get_default (usage_history self today) zero_usage"

definition check_daily_quota :: "int \<Rightarrow> cost_optimizer \<Rightarrow> bool" where
  "check_daily_quota today self =
     (let current_requests =
            (case usage_history self today of None \<Rightarrow> 0 | Some r \<Rightarrow> requests r)
      in current_requests < max_daily_requests self)"

text \<open>A sequence of \<^verbatim>\<open>track_usage\<close> calls, each with its date, tokens and cost.\<close>

fun track_all :: "(int \<times> int \<times> real) list \<Rightarrow> cost_optimizer \<Rightarrow> cost_optimizer" where
  "track_all [] self = self"
| "track_all ((today, tokens_used, cost_arg) # calls) self =
     track_all calls (track_usage today tokens_used cost_arg self)"

subsection \<open>Complexity scoring (lines 70-164)\<close>

text \<open>
  Each sub-score runs its blocks in order on the pair of the local variables
  \<^verbatim>\<open>score\<close> and \<^verbatim>\<open>factors\<close>, then divides.
\<close>

type_synonym tally = "real \<times> int"

definition finish :: "tally \<Rightarrow> real" where
  "finish sf = (case sf of (score, factors) \<Rightarrow>
     if factors > 0 then score / real_of_int factors else 0.0)"

text \<open>Lines 103-109.\<close>

definition meta_tags_block :: "tech_dict \<Rightarrow> tally \<Rightarrow> tally" where
  "meta_tags_block tech_data sf = (case sf of (score, factors) \<Rightarrow>
     (case meta_tags tech_data of
        None \<Rightarrow> (score, factors)
      | Some mt \<Rightarrow>
          (let score1 = (if \<not> truthy (meta_description mt) then score + 0.8 else score);
               score2 = (if int (length (get_default (title mt) [])) > 60
                         then score1 + 0.6 else score1)
           in (score2, factors + 2))))"

text \<open>Lines 112-118.\<close>

definition headings_block :: "tech_dict \<Rightarrow> tally \<Rightarrow> tally" where
  "headings_block tech_data sf = (case sf of (score, factors) \<Rightarrow>
     (case headings tech_data of
        None \<Rightarrow> (score, factors)
      | Some hs \<Rightarrow>
          (let score1 = (if get_default (map_of hs ''h1'') 0 \<noteq> 1 then score + 0.7 else score);
               score2 = (if sum_list (map snd hs) > 15 then score1 + 0.5 else score1)
           in (score2, factors + 2))))"

definition calculate_technical_complexity :: "tech_dict \<Rightarrow> real" where
  "calculate_technical_complexity tech_data =
     finish (headings_block tech_data (meta_tags_block tech_data (0.0, 0)))"

text \<open>Lines 128-135.\<close>

definition content_length_block :: "scraped_dict \<Rightarrow> tally \<Rightarrow> tally" where
  "content_length_block content_data sf = (case sf of (score, factors) \<Rightarrow>
     (case content content_data of
        None \<Rightarrow> (score, factors)
      | Some c \<Rightarrow>
          (let wc = get_default (word_count c) 0;
               score1 = (if wc > 1000 then score + 0.8
                         else if wc < 300 then score + 0.6
                         else score)
           in (score1, factors + 1))))"

text \<open>Lines 138-141.\<close>

definition structure_block :: "scraped_dict \<Rightarrow> tally \<Rightarrow> tally" where
  "structure_block content_data sf = (case sf of (score, factors) \<Rightarrow>
     (case paragraphs (get_default (content content_data) empty_content) of
        None \<Rightarrow> (score, factors)
      | Some p \<Rightarrow> ((if p > 10 then score + 0.7 else score), factors + 1)))"

definition calculate_content_complexity :: "scraped_dict \<Rightarrow> real" where
  "calculate_content_complexity content_data =
     finish (structure_block content_data (content_length_block content_data (0.0, 0)))"

text \<open>Lines 151-156.\<close>

definition total_links_block :: "moz_dict \<Rightarrow> tally \<Rightarrow> tally" where
  "total_links_block moz sf = (case sf of (score, factors) \<Rightarrow>
     (let tl = get_default (total_links (get_default (metrics moz) empty_metrics)) 0;
          score1 = (if tl < 10 then score + 0.9
                    else if tl > 50 then score + 0.5
                    else score)
      in (score1, factors + 1)))"

text \<open>Lines 159-162.\<close>

definition spam_score_block :: "moz_dict \<Rightarrow> tally \<Rightarrow> tally" where
  "spam_score_block moz sf = (case sf of (score, factors) \<Rightarrow>
     (let sp = get_default (spam_score (get_default (metrics moz) empty_metrics)) 0
      in ((if sp > 20 then score + 0.7 else score), factors + 1)))"

definition calculate_backlink_complexity :: "moz_dict \<Rightarrow> real" where
  "calculate_backlink_complexity moz =
     finish (spam_score_block moz (total_links_block moz (0.0, 0)))"

definition calculate_complexity :: "analysis_data \<Rightarrow> real" where
  "calculate_complexity data =
     (let tech_score =
            calculate_technical_complexity (get_default (technical_seo data) empty_tech);
          content_score =
            calculate_content_complexity (get_default (scraped_data data) empty_scraped);
          backlink_score =
            calculate_backlink_complexity (get_default (moz_data data) empty_moz);
          complexity_scores = [tech_score, content_score, backlink_score]
      in if complexity_scores \<noteq> []
         then sum_list complexity_scores / real (length complexity_scores)
         else 0.0)"

subsection \<open>The decision (lines 21-38)\<close>

definition should_use_llm :: "int \<Rightarrow> cost_optimizer \<Rightarrow> analysis_data \<Rightarrow> bool" where
  "should_use_llm today self data =
     (if \<not> check_daily_quota today self then False
      else (let complexity_score = calculate_complexity data
            in if complexity_score > complexity_threshold self * 0.8 then True else True))"

subsection \<open>Prompt budgeting (lines 166-183)\<close>

definition estimate_tokens :: "'c list \<Rightarrow> int" where
  "estimate_tokens text = int (length text) div 4"

text \<open>Line 177; the caller has excluded a zero divisor.\<close>

definition prompt_ratio :: "int \<Rightarrow> int \<Rightarrow> real" where
  "prompt_ratio max_tokens estimated_tokens =
     real_of_int max_tokens / real_of_int estimated_tokens"

text \<open>Line 178.\<close>

definition truncate_length :: "cost_optimizer \<Rightarrow> 'c list \<Rightarrow> int \<Rightarrow> int" where
  "truncate_length self prompt max_tokens =
     py_int (real (length prompt)
             * prompt_ratio max_tokens (estimate_tokens prompt)
             * token_buffer self)"

text \<open>
  The division of line 177 raises when the estimate is zero, which the guard
  of line 174 lets through for a negative \<open>max_tokens\<close>.
\<close>

definition optimize_prompt :: "cost_optimizer \<Rightarrow> 'c list \<Rightarrow> int \<Rightarrow> py_error + 'c list" where
  "optimize_prompt self prompt max_tokens =
     (let estimated_tokens = estimate_tokens prompt in
      if estimated_tokens \<le> max_tokens then Inr prompt
      else if estimated_tokens = 0 then Inl ZeroDivisionError
      else Inr (py_slice_to prompt (truncate_length self prompt max_tokens)))"

subsection \<open>An example run\<close>

text \<open>Five requests recorded on day 10 by an optimizer built on day 10.\<close>

definition five_requests :: cost_optimizer where
  "five_requests = track_all [(10, 100, 0.01), (10, 200, 0.02), (10, 50, 0.01),
     (10, 300, 0.03), (10, 120, 0.02)] (init None 10)"

section \<open>Properties\<close>

subsection \<open>The quota gate\<close>

text \<open>
  Claim C1. Whenever the number of requests recorded for today is strictly
  below \<open>max_daily_requests\<close>, \<open>should_use_llm\<close> answers true, whatever the
  analysis data and whatever the complexity threshold: the branch for a low
  complexity returns true as well.
\<close>

theorem should_use_llm_quota_open:
  assumes "requests (get_usage_stats today self) < max_daily_requests self"
  shows "should_use_llm today self data = True"
  using assms
  by (simp add: should_use_llm_def check_daily_quota_def get_usage_stats_def
      get_default_def zero_usage_def split: option.splits)

theorem should_use_llm_quota_open_witness:
  "requests (get_usage_stats 7 (track_usage 7 120 0.01 (init None 7)))
     < max_daily_requests (track_usage 7 120 0.01 (init None 7))
   \<and> should_use_llm 7 (track_usage 7 120 0.01 (init None 7))
        \<lparr>technical_seo = None, scraped_data = None,
         moz_data = Some \<lparr>metrics = Some \<lparr>total_links = Some 5, spam_score = None\<rparr>\<rparr>\<rparr> = True"
  using should_use_llm_quota_open [of 7 "track_usage 7 120 0.01 (init None 7)"
     "\<lparr>technical_seo = None, scraped_data = None,
         moz_data = Some \<lparr>metrics = Some \<lparr>total_links = Some 5, spam_score = None\<rparr>\<rparr>\<rparr>"]
  by (simp add: get_usage_stats_def track_usage_def init_def get_default_def zero_usage_def
      empty_config_def Let_def)

subsection \<open>Counting requests\<close>

lemma should_use_llm_iff:
  "should_use_llm today self data \<longleftrightarrow>
     requests (get_usage_stats today self) < max_daily_requests self"
  by (simp add: should_use_llm_def check_daily_quota_def get_usage_stats_def
      get_default_def zero_usage_def split: option.splits)

lemma track_usage_requests:
  "requests (get_usage_stats D (track_usage D t c self)) =
     (if D > last_reset self then 0 else requests (get_usage_stats D self)) + 1"
  by (simp add: get_usage_stats_def track_usage_def get_default_def zero_usage_def Let_def
      split: option.splits)

lemma track_usage_last_reset:
  "last_reset (track_usage D t c self) = max (last_reset self) D"
  by (simp add: track_usage_def Let_def)

lemma track_usage_max_daily_requests:
  "max_daily_requests (track_usage D t c self) = max_daily_requests self"
  by (simp add: track_usage_def Let_def)

lemma track_all_max_daily_requests:
  "max_daily_requests (track_all calls self) = max_daily_requests self"
  by (induction calls self rule: track_all.induct) (simp_all add: track_usage_max_daily_requests)

text \<open>
  Calls on one date add up, provided the first of them does not wipe a record
  of that date: either there is none, or the date is not after the last reset.
\<close>

lemma track_all_same_date_requests:
  assumes "usage_history self D = None \<or> D \<le> last_reset self"
    and "list_all (\<lambda>call. fst call = D) calls"
  shows "requests (get_usage_stats D (track_all calls self)) =
         requests (get_usage_stats D self) + int (length calls)"
  using assms
proof (induction calls arbitrary: self)
  case Nil
  then show ?case by simp
next
  case (Cons call calls)
  obtain t c where call: "call = (D, t, c)"
    using Cons.prems(2) by (cases call) auto
  have "D \<le> last_reset (track_usage D t c self)"
    by (simp add: track_usage_last_reset)
  then have "requests (get_usage_stats D (track_all calls (track_usage D t c self))) =
      requests (get_usage_stats D (track_usage D t c self)) + int (length calls)"
    using Cons.IH Cons.prems(2) by simp
  moreover have "requests (get_usage_stats D (track_usage D t c self)) =
      requests (get_usage_stats D self) + 1"
    using Cons.prems(1) track_usage_requests [of D t c self]
    by (auto simp: get_usage_stats_def get_default_def zero_usage_def)
  ultimately show ?case by (simp add: call)
qed

text \<open>
  Claim C2. Take an optimizer built with \<open>max_requests_per_day = N\<close> (on any
  date \<open>D0\<close>) and a sequence of \<open>track_usage\<close> calls that all happen on the
  date \<open>D\<close>, with any tokens and costs. If the sequence has exactly \<open>N\<close> calls,
  \<open>should_use_llm\<close> on \<open>D\<close> answers false for every analysis data; if it has
  fewer than \<open>N\<close> calls, it answers true for every analysis data.
\<close>

theorem quota_boundary:
  fixes N :: nat
  assumes "max_requests_per_day cfg = Some (int N)"
    and "list_all (\<lambda>call. fst call = D) calls"
  shows "(length calls = N \<longrightarrow>
            should_use_llm D (track_all calls (init (Some cfg) D0)) data = False)
       \<and> (length calls < N \<longrightarrow>
            should_use_llm D (track_all calls (init (Some cfg) D0)) data = True)"
proof -
  let ?s0 = "init (Some cfg) D0"
  have "usage_history ?s0 D = None"
    by (simp add: init_def)
  then have "requests (get_usage_stats D (track_all calls ?s0)) =
      requests (get_usage_stats D ?s0) + int (length calls)"
    using assms(2) by (intro track_all_same_date_requests) simp_all
  moreover have "requests (get_usage_stats D ?s0) = 0"
    by (simp add: init_def get_usage_stats_def get_default_def zero_usage_def)
  moreover have "max_daily_requests (track_all calls ?s0) = int N"
    using assms(1) by (simp add: track_all_max_daily_requests init_def get_default_def)
  ultimately show ?thesis
    by (simp add: should_use_llm_iff)
qed

theorem quota_boundary_witness:
  "max_requests_per_day \<lparr>max_requests_per_day = Some 2, cfg_token_buffer = None,
       cfg_complexity_threshold = None\<rparr> = Some (int 2)
   \<and> list_all (\<lambda>call. fst call = 5) [(5, 100, 0.5), (5, 40, 0.25 :: real)]
   \<and> list_all (\<lambda>call. fst call = 5) [(5, 100, 0.5 :: real)]
   \<and> length [(5 :: int, 100 :: int, 0.5 :: real), (5, 40, 0.25)] = 2
   \<and> length [(5 :: int, 100 :: int, 0.5 :: real)] < 2
   \<and> should_use_llm 5
        (track_all [(5, 100, 0.5), (5, 40, 0.25)]
           (init (Some \<lparr>max_requests_per_day = Some 2, cfg_token_buffer = None,
              cfg_complexity_threshold = None\<rparr>) 3))
        \<lparr>technical_seo = None, scraped_data = None, moz_data = None\<rparr> = False
   \<and> should_use_llm 5
        (track_all [(5, 100, 0.5)]
           (init (Some \<lparr>max_requests_per_day = Some 2, cfg_token_buffer = None,
              cfg_complexity_threshold = None\<rparr>) 3))
        \<lparr>technical_seo = None, scraped_data = None, moz_data = None\<rparr> = True"
  using quota_boundary [of "\<lparr>max_requests_per_day = Some 2, cfg_token_buffer = None,
       cfg_complexity_threshold = None\<rparr>" 2 5 "[(5, 100, 0.5), (5, 40, 0.25)]" 3
       "\<lparr>technical_seo = None, scraped_data = None, moz_data = None\<rparr>"]
    quota_boundary [of "\<lparr>max_requests_per_day = Some 2, cfg_token_buffer = None,
       cfg_complexity_threshold = None\<rparr>" 2 5 "[(5, 100, 0.5)]" 3
       "\<lparr>technical_seo = None, scraped_data = None, moz_data = None\<rparr>"]
  by simp

subsection \<open>Bounds of the complexity score\<close>

text \<open>
  Each block adds at most 0.9 per factor it counts, so every sub-score is a
  quotient of a sum by a count that is at least as large.
\<close>

lemma finish_bounds:
  assumes "0 \<le> s" and "s \<le> real_of_int f"
  shows "0 \<le> finish (s, f) \<and> finish (s, f) \<le> 1"
  using assms by (simp add: finish_def divide_le_eq_1)

lemma meta_tags_block_bounds:
  assumes "meta_tags_block td (s, f) = (s', f')"
  shows "s \<le> s' \<and> s' - s \<le> 0.7 * real_of_int (f' - f) \<and> f \<le> f'"
  using assms
  by (auto simp: meta_tags_block_def Let_def split: option.splits if_splits)

lemma headings_block_bounds:
  assumes "headings_block td (s, f) = (s', f')"
  shows "s \<le> s' \<and> s' - s \<le> 0.6 * real_of_int (f' - f) \<and> f \<le> f'"
  using assms
  by (auto simp: headings_block_def Let_def split: option.splits if_splits)

lemma content_length_block_bounds:
  assumes "content_length_block cd (s, f) = (s', f')"
  shows "s \<le> s' \<and> s' - s \<le> 0.8 * real_of_int (f' - f) \<and> f \<le> f'"
  using assms
  by (auto simp: content_length_block_def Let_def split: option.splits if_splits)

lemma structure_block_bounds:
  assumes "structure_block cd (s, f) = (s', f')"
  shows "s \<le> s' \<and> s' - s \<le> 0.7 * real_of_int (f' - f) \<and> f \<le> f'"
  using assms
  by (auto simp: structure_block_def Let_def split: option.splits if_splits)

lemma total_links_block_bounds:
  assumes "total_links_block m (s, f) = (s', f')"
  shows "s \<le> s' \<and> s' - s \<le> 0.9 * real_of_int (f' - f) \<and> f \<le> f'"
  using assms
  by (auto simp: total_links_block_def Let_def split: option.splits if_splits)

lemma spam_score_block_bounds:
  assumes "spam_score_block m (s, f) = (s', f')"
  shows "s \<le> s' \<and> s' - s \<le> 0.7 * real_of_int (f' - f) \<and> f \<le> f'"
  using assms
  by (auto simp: spam_score_block_def Let_def split: option.splits if_splits)

lemma technical_bounds:
  "0 \<le> calculate_technical_complexity td \<and> calculate_technical_complexity td \<le> 1"
proof -
  obtain s1 f1 where b1: "meta_tags_block td (0, 0) = (s1, f1)"
    by (cases "meta_tags_block td (0, 0)") auto
  obtain s2 f2 where b2: "headings_block td (s1, f1) = (s2, f2)"
    by (cases "headings_block td (s1, f1)") auto
  from meta_tags_block_bounds [OF b1] headings_block_bounds [OF b2]
  have "0 \<le> s2" and "s2 \<le> real_of_int f2" by auto
  then show ?thesis
    using finish_bounds [of s2 f2] by (simp add: calculate_technical_complexity_def b1 b2)
qed

lemma content_bounds:
  "0 \<le> calculate_content_complexity cd \<and> calculate_content_complexity cd \<le> 1"
proof -
  obtain s1 f1 where b1: "content_length_block cd (0, 0) = (s1, f1)"
    by (cases "content_length_block cd (0, 0)") auto
  obtain s2 f2 where b2: "structure_block cd (s1, f1) = (s2, f2)"
    by (cases "structure_block cd (s1, f1)") auto
  from content_length_block_bounds [OF b1] structure_block_bounds [OF b2]
  have "0 \<le> s2" and "s2 \<le> real_of_int f2" by auto
  then show ?thesis
    using finish_bounds [of s2 f2] by (simp add: calculate_content_complexity_def b1 b2)
qed

lemma backlink_bounds:
  "0 \<le> calculate_backlink_complexity m \<and> calculate_backlink_complexity m \<le> 1"
proof -
  obtain s1 f1 where b1: "total_links_block m (0, 0) = (s1, f1)"
    by (cases "total_links_block m (0, 0)") auto
  obtain s2 f2 where b2: "spam_score_block m (s1, f1) = (s2, f2)"
    by (cases "spam_score_block m (s1, f1)") auto
  from total_links_block_bounds [OF b1] spam_score_block_bounds [OF b2]
  have "0 \<le> s2" and "s2 \<le> real_of_int f2" by auto
  then show ?thesis
    using finish_bounds [of s2 f2] by (simp add: calculate_backlink_complexity_def b1 b2)
qed

text \<open>
  Claim C3. For every analysis data of the input type (numbers where the code
  expects numbers), the score of \<open>calculate_complexity\<close> lies in the closed
  interval from 0 to 1.
\<close>

theorem complexity_in_unit_interval:
  "0 \<le> calculate_complexity data \<and> calculate_complexity data \<le> 1"
  using technical_bounds [of "get_default (technical_seo data) empty_tech"]
    content_bounds [of "get_default (scraped_data data) empty_scraped"]
    backlink_bounds [of "get_default (moz_data data) empty_moz"]
  by (simp add: calculate_complexity_def Let_def)

text \<open>
  Claim C8. For the analysis data whose only content is
  \<^verbatim>\<open>moz_data.metrics.total_links = 5\<close>, the technical sub-score is 0, the
  content sub-score is 0, the backlink sub-score is 0.45 and the overall
  complexity is 0.15: the mean is over all three sub-scores, the absent
  sections counting as 0.
\<close>

theorem complexity_only_total_links:
  "calculate_technical_complexity (get_default (technical_seo
       \<lparr>technical_seo = None, scraped_data = None,
        moz_data = Some \<lparr>metrics = Some \<lparr>total_links = Some 5, spam_score = None\<rparr>\<rparr>\<rparr>) empty_tech) = 0
   \<and> calculate_content_complexity (get_default (scraped_data
       \<lparr>technical_seo = None, scraped_data = None,
        moz_data = Some \<lparr>metrics = Some \<lparr>total_links = Some 5, spam_score = None\<rparr>\<rparr>\<rparr>) empty_scraped) = 0
   \<and> calculate_backlink_complexity (get_default (moz_data
       \<lparr>technical_seo = None, scraped_data = None,
        moz_data = Some \<lparr>metrics = Some \<lparr>total_links = Some 5, spam_score = None\<rparr>\<rparr>\<rparr>) empty_moz) = 0.45
   \<and> calculate_complexity
       \<lparr>technical_seo = None, scraped_data = None,
        moz_data = Some \<lparr>metrics = Some \<lparr>total_links = Some 5, spam_score = None\<rparr>\<rparr>\<rparr> = 0.15"
  by (simp add: calculate_complexity_def calculate_technical_complexity_def
      calculate_content_complexity_def calculate_backlink_complexity_def
      meta_tags_block_def headings_block_def content_length_block_def structure_block_def
      total_links_block_def spam_score_block_def finish_def get_default_def
      empty_tech_def empty_scraped_def empty_content_def empty_moz_def empty_metrics_def Let_def)

subsection \<open>Day rollover\<close>

text \<open>
  While the clock does not run backwards, the history holds records of the
  date of the last reset only.
\<close>

lemma track_usage_later:
  assumes "last_reset self < today"
  shows "usage_history (track_usage today t c self) =
           [today \<mapsto> \<lparr>requests = 1, tokens = t, cost = c\<rparr>]"
  using assms by (simp add: track_usage_def get_default_def zero_usage_def Let_def)

lemma track_usage_single_date:
  assumes "dom (usage_history self) \<subseteq> {last_reset self}" and "last_reset self \<le> today"
  shows "dom (usage_history (track_usage today t c self)) = {today}
       \<and> last_reset (track_usage today t c self) = today"
  using assms by (auto simp: track_usage_def Let_def split: if_splits)

lemma track_all_single_date:
  assumes "dom (usage_history self) \<subseteq> {last_reset self}"
    and "sorted (last_reset self # map fst calls)"
  shows "dom (usage_history (track_all calls self)) \<subseteq> {last_reset (track_all calls self)}
       \<and> last_reset (track_all calls self) = last (last_reset self # map fst calls)"
  using assms
proof (induction calls arbitrary: self)
  case Nil
  then show ?case by simp
next
  case (Cons call calls)
  obtain d t c where call: "call = (d, t, c)" by (cases call) auto
  let ?next = "track_usage d t c self"
  have le: "last_reset self \<le> d" using Cons.prems(2) by (simp add: call)
  have step: "dom (usage_history ?next) = {d}" "last_reset ?next = d"
    using track_usage_single_date [OF Cons.prems(1) le] by simp_all
  have p1: "dom (usage_history ?next) \<subseteq> {last_reset ?next}"
    by (simp add: step)
  have p2: "sorted (last_reset ?next # map fst calls)"
    using Cons.prems(2) by (simp add: call step)
  have e1: "track_all (call # calls) self = track_all calls ?next"
    by (simp add: call)
  have e2: "last (last_reset self # map fst (call # calls)) =
      last (last_reset ?next # map fst calls)"
    by (simp add: call step)
  show ?case
    unfolding e1 e2 by (rule Cons.IH [OF p1 p2])
qed

text \<open>
  Claim C4. The history is kept for one calendar date at a time. A
  \<open>track_usage\<close> call on a date strictly later than \<open>last_reset\<close> clears
  all earlier records before it records, in every state. And in every run
  from a fresh optimizer whose calls come at dates that do not decrease from
  the date of construction on: after a call on the date \<open>D\<close> the history
  holds the date \<open>D\<close> alone, \<open>get_usage_stats\<close> on \<open>D + 1\<close> returns the
  all-zeros record, and the next \<open>track_usage\<close> call on \<open>D + 1\<close> leaves
  exactly one record, with \<open>requests = 1\<close>.
\<close>

theorem day_rollover:
  shows "(last_reset self < today \<longrightarrow>
            usage_history (track_usage today tokens_used cost_arg self) =
              [today \<mapsto> \<lparr>requests = 1, tokens = tokens_used, cost = cost_arg\<rparr>])
       \<and> (sorted (D0 # map fst calls @ [D]) \<longrightarrow>
            dom (usage_history (track_usage D t c (track_all calls (init cfg D0)))) = {D}
          \<and> get_usage_stats (D + 1) (track_usage D t c (track_all calls (init cfg D0)))
              = zero_usage
          \<and> usage_history
               (track_usage (D + 1) t' c' (track_usage D t c (track_all calls (init cfg D0))))
              = [D + 1 \<mapsto> \<lparr>requests = 1, tokens = t', cost = c'\<rparr>])"
proof (intro conjI impI)
  assume "last_reset self < today"
  then show "usage_history (track_usage today tokens_used cost_arg self) =
      [today \<mapsto> \<lparr>requests = 1, tokens = tokens_used, cost = cost_arg\<rparr>]"
    by (rule track_usage_later)
next
  assume mono: "sorted (D0 # map fst calls @ [D])"
  let ?fresh = "init cfg D0"
  let ?before = "track_all calls ?fresh"
  let ?after = "track_usage D t c ?before"
  have s0: "dom (usage_history ?fresh) \<subseteq> {last_reset ?fresh}" "last_reset ?fresh = D0"
    by (simp_all add: init_def Let_def)
  have mem: "last (D0 # map fst calls) \<in> set (D0 # map fst calls)"
    by (rule last_in_set) simp
  have "sorted ((D0 # map fst calls) @ [D])"
    using mono by simp
  then have sorted_calls: "sorted (D0 # map fst calls)"
    and below: "\<forall>x\<in>set (D0 # map fst calls). x \<le> D"
    unfolding sorted_append by simp_all
  have last_le: "last (D0 # map fst calls) \<le> D"
    using mem below by blast
  have srt0: "sorted (last_reset ?fresh # map fst calls)"
    using sorted_calls by (simp only: s0(2))
  note inv = track_all_single_date [OF s0(1) srt0]
  have s1a: "dom (usage_history ?before) \<subseteq> {last_reset ?before}"
    using inv by blast
  have "last_reset ?before = last (D0 # map fst calls)"
    using inv unfolding s0(2) by blast
  with last_le have s1b: "last_reset ?before \<le> D"
    by simp
  from track_usage_single_date [OF s1a s1b]
  have s: "dom (usage_history ?after) = {D}" "last_reset ?after = D"
    by simp_all
  show "dom (usage_history ?after) = {D}" by (rule s)
  have "D + 1 \<notin> dom (usage_history ?after)"
    by (simp add: s)
  then show "get_usage_stats (D + 1) ?after = zero_usage"
    by (simp add: get_usage_stats_def get_default_def domIff)
  show "usage_history (track_usage (D + 1) t' c' ?after)
      = [D + 1 \<mapsto> \<lparr>requests = 1, tokens = t', cost = c'\<rparr>]"
    by (rule track_usage_later) (simp add: s)
qed

theorem day_rollover_witness:
  "last_reset five_requests < 11
   \<and> usage_history (track_usage 11 70 0.5 five_requests)
       = [11 \<mapsto> \<lparr>requests = 1, tokens = 70, cost = 0.5\<rparr>]
   \<and> sorted (10 # map fst [(10, 100, 0.01), (10, 200, 0.02), (10, 50, 0.01),
        (10 :: int, 300 :: int, 0.03 :: real)] @ [10])
   \<and> five_requests = track_usage 10 120 0.02 (track_all [(10, 100, 0.01), (10, 200, 0.02),
        (10, 50, 0.01), (10, 300, 0.03)] (init None 10))
   \<and> requests (get_usage_stats 10 five_requests) = 5
   \<and> dom (usage_history five_requests) = {10}
   \<and> get_usage_stats (10 + 1) five_requests = zero_usage
   \<and> usage_history (track_usage (10 + 1) 70 0.5 five_requests)
       = [10 + 1 \<mapsto> \<lparr>requests = 1, tokens = 70, cost = 0.5\<rparr>]"
proof -
  have unfold: "five_requests = track_usage 10 120 0.02 (track_all [(10, 100, 0.01),
      (10, 200, 0.02), (10, 50, 0.01), (10, 300, 0.03)] (init None 10))"
    by (simp add: five_requests_def)
  have lr: "last_reset five_requests < 11"
    by (simp add: five_requests_def track_usage_def init_def Let_def)
  have five: "requests (get_usage_stats 10 five_requests) = 5"
    by (simp add: five_requests_def track_usage_def init_def get_usage_stats_def
        get_default_def zero_usage_def Let_def)
  have srt: "sorted (10 # map fst [(10, 100, 0.01), (10, 200, 0.02), (10, 50, 0.01),
        (10 :: int, 300 :: int, 0.03 :: real)] @ [10])"
    by simp
  show ?thesis
    using day_rollover [where self = five_requests and today = 11 and tokens_used = 70
        and cost_arg = "0.5" and ?D0.0 = 10
        and calls = "[(10, 100, 0.01), (10, 200, 0.02), (10, 50, 0.01), (10, 300, 0.03)]"
        and D = 10 and cfg = None and t = 120 and c = "0.02" and t' = 70 and c' = "0.5"] lr five srt unfold
    by simp
qed

subsection \<open>Negative usage\<close>

text \<open>
  \<open>track_usage\<close> has no validation and no error result. A call with a
  negative \<open>tokens_used\<close> and a negative cost, after a call that recorded 10
  tokens at cost 1, lowers both totals of the day.
\<close>

theorem track_usage_negative_counterexample:
  "tokens (get_usage_stats 0 (track_usage 0 (- 5) (- 0.5) (track_usage 0 10 1 (init None 0))))
     < tokens (get_usage_stats 0 (track_usage 0 10 1 (init None 0)))
   \<and> cost (get_usage_stats 0 (track_usage 0 (- 5) (- 0.5) (track_usage 0 10 1 (init None 0))))
     < cost (get_usage_stats 0 (track_usage 0 10 1 (init None 0)))"
  by (simp add: get_usage_stats_def track_usage_def init_def get_default_def zero_usage_def
      Let_def)

text \<open>
  Claim C5, amended. \<open>track_usage\<close> accepts every \<open>tokens_used\<close> and every
  cost, negative ones included: it adds 1 to the requests of the day and adds
  \<open>tokens_used\<close> and the cost, as given, to the totals of the day, which
  start from zero after a rollover or when the day has no record.
\<close>

theorem track_usage_adds:
  "requests (get_usage_stats today (track_usage today tokens_used cost_arg self)) =
     requests (if last_reset self < today then zero_usage else get_usage_stats today self) + 1
   \<and> tokens (get_usage_stats today (track_usage today tokens_used cost_arg self)) =
     tokens (if last_reset self < today then zero_usage else get_usage_stats today self)
       + tokens_used
   \<and> cost (get_usage_stats today (track_usage today tokens_used cost_arg self)) =
     cost (if last_reset self < today then zero_usage else get_usage_stats today self)
       + cost_arg"
  by (simp add: get_usage_stats_def track_usage_def get_default_def zero_usage_def Let_def
      split: option.splits)

theorem track_usage_adds_witness:
  "tokens (get_usage_stats 0 (track_usage 0 (- 5) (- 0.5) (track_usage 0 10 1 (init None 0))))
     = 5
   \<and> requests (get_usage_stats 0 (track_usage 0 (- 5) (- 0.5) (track_usage 0 10 1 (init None 0))))
     = 2
   \<and> cost (get_usage_stats 0 (track_usage 0 (- 5) (- 0.5) (track_usage 0 10 1 (init None 0))))
     = 0.5"
  using track_usage_adds [of 0 "- 5" "- 0.5" "track_usage 0 10 1 (init None 0)"]
    track_usage_adds [of 0 10 1 "init None 0"]
  by (simp add: track_usage_last_reset init_def get_usage_stats_def get_default_def
      zero_usage_def)

subsection \<open>Prompt budgeting\<close>

text \<open>
  Claim C6. For a prompt of exactly 1000 characters, \<open>max_tokens = 100\<close> and
  \<open>token_buffer = 0.9\<close>: the estimate is 250 tokens, the ratio is 0.4, the
  truncation length is 360, and \<open>optimize_prompt\<close> returns the first 360
  characters of the prompt.
\<close>

theorem optimize_prompt_1000:
  assumes "length prompt = 1000" and "token_buffer self = 0.9"
  shows "estimate_tokens prompt = 250
       \<and> prompt_ratio 100 (estimate_tokens prompt) = 0.4
       \<and> truncate_length self prompt 100 = 360
       \<and> optimize_prompt self prompt 100 = Inr (take 360 prompt)"
proof -
  have tb: "token_buffer self = 9 / 10"
    using assms(2) by simp
  show ?thesis
    by (simp add: estimate_tokens_def prompt_ratio_def truncate_length_def optimize_prompt_def
        py_int_def py_slice_to_def assms(1) tb)
qed

theorem optimize_prompt_1000_witness:
  "length (replicate 1000 CHR ''x'') = 1000 \<and> token_buffer (init None 0) = 0.9
   \<and> estimate_tokens (replicate 1000 CHR ''x'') = 250
   \<and> truncate_length (init None 0) (replicate 1000 CHR ''x'') 100 = 360
   \<and> optimize_prompt (init None 0) (replicate 1000 CHR ''x'') 100
       = Inr (replicate 360 CHR ''x'')"
  using optimize_prompt_1000 [of "replicate 1000 CHR ''x''" "init None 0"]
  by (simp add: init_def get_default_def empty_config_def)

text \<open>
  Claim C7. Whenever \<open>estimate_tokens prompt \<le> max_tokens\<close>,
  \<open>optimize_prompt\<close> returns the prompt itself.
\<close>

theorem optimize_prompt_identity:
  assumes "estimate_tokens prompt \<le> max_tokens"
  shows "optimize_prompt self prompt max_tokens = Inr prompt"
  using assms by (simp add: optimize_prompt_def)

theorem optimize_prompt_identity_witness:
  "estimate_tokens ''Summarise the audit'' \<le> 4
   \<and> optimize_prompt (init None 0) ''Summarise the audit'' 4 = Inr ''Summarise the audit''"
  using optimize_prompt_identity [of "''Summarise the audit''" 4 "init None 0"]
  by (simp add: estimate_tokens_def)

text \<open>
  A text has at most three characters more than four times its estimate;
  with a ratio below 1 and a buffer of at most 1 the truncation length stays
  below \<open>4 * max_tokens + 3\<close>.
\<close>

lemma estimate_tokens_take:
  "estimate_tokens (take n s) \<le> int n div 4"
  by (simp add: estimate_tokens_def zdiv_mono1)

lemma length_le_estimate:
  "real (length s) \<le> 4 * real_of_int (estimate_tokens s) + 3"
proof -
  have "int (length s) \<le> 4 * (int (length s) div 4) + 3"
    by presburger
  then have "real_of_int (int (length s)) \<le> real_of_int (4 * (int (length s) div 4) + 3)"
    by (rule of_int_le_iff [THEN iffD2])
  then show ?thesis
    by (simp add: estimate_tokens_def)
qed

lemma truncate_length_bounds:
  assumes m0: "0 \<le> max_tokens" and over: "max_tokens < estimate_tokens prompt"
    and b0: "0 < token_buffer self" and b1: "token_buffer self \<le> 1"
  shows "0 \<le> truncate_length self prompt max_tokens
       \<and> truncate_length self prompt max_tokens \<le> 4 * max_tokens + 2"
proof -
  let ?e = "real_of_int (estimate_tokens prompt)"
  let ?m = "real_of_int max_tokens"
  let ?L = "real (length prompt)"
  let ?x = "?L * (?m / ?e) * token_buffer self"
  have e_pos: "0 < ?e" using m0 over by simp
  have m_nonneg: "0 \<le> ?m" using m0 by simp
  have r_nonneg: "0 \<le> ?m / ?e" using e_pos m_nonneg by simp
  have r_less: "?m / ?e < 1" using e_pos over by simp
  have L_nonneg: "0 \<le> ?L"
    by simp
  have y_nonneg: "0 \<le> ?L * (?m / ?e)"
    using L_nonneg r_nonneg by (rule mult_nonneg_nonneg)
  have x_nonneg: "0 \<le> ?x"
    using y_nonneg less_imp_le [OF b0] by (rule mult_nonneg_nonneg)
  have "?x \<le> ?L * (?m / ?e) * 1"
    using b1 y_nonneg by (rule mult_left_mono)
  also have "\<dots> = ?L * (?m / ?e)"
    by simp
  also have "\<dots> \<le> (4 * ?e + 3) * (?m / ?e)"
    using length_le_estimate [of prompt] r_nonneg by (rule mult_right_mono)
  also have "\<dots> = 4 * ?m + 3 * (?m / ?e)"
    using e_pos by (simp add: field_simps)
  also have "\<dots> < 4 * ?m + 3"
    using r_less by simp
  finally have "?x < real_of_int (4 * max_tokens + 3)"
    by simp
  then have "\<lfloor>?x\<rfloor> < 4 * max_tokens + 3"
    by (simp add: floor_less_iff)
  moreover have "0 \<le> \<lfloor>?x\<rfloor>"
    using x_nonneg by simp
  moreover have "truncate_length self prompt max_tokens = \<lfloor>?x\<rfloor>"
    using x_nonneg by (simp add: truncate_length_def prompt_ratio_def py_int_def)
  ultimately show ?thesis by simp
qed

text \<open>
  Claim C10. For every prompt, every \<open>max_tokens \<ge> 0\<close> and every
  \<open>token_buffer\<close> in the interval from 0 (excluded) to 1 (included),
  \<open>optimize_prompt\<close> returns a text (it does not raise), the text is a prefix
  of the prompt, and its estimated token count is at most \<open>max_tokens\<close>.
\<close>

theorem optimize_prompt_fits:
  assumes "0 \<le> max_tokens" and "0 < token_buffer self" and "token_buffer self \<le> 1"
  shows "\<exists>r. optimize_prompt self prompt max_tokens = Inr r
           \<and> prefix r prompt \<and> estimate_tokens r \<le> max_tokens"
proof (cases "estimate_tokens prompt \<le> max_tokens")
  case True
  then show ?thesis by (simp add: optimize_prompt_def)
next
  case False
  then have over: "max_tokens < estimate_tokens prompt" by simp
  let ?n = "truncate_length self prompt max_tokens"
  have n: "0 \<le> ?n" "?n \<le> 4 * max_tokens + 2"
    using truncate_length_bounds [OF assms(1) over assms(2,3)] by simp_all
  have res: "optimize_prompt self prompt max_tokens = Inr (take (nat ?n) prompt)"
    using over assms(1) n(1) by (simp add: optimize_prompt_def py_slice_to_def)
  have "estimate_tokens (take (nat ?n) prompt) \<le> int (nat ?n) div 4"
    by (rule estimate_tokens_take)
  also have "\<dots> \<le> max_tokens"
    using n by simp
  finally have "estimate_tokens (take (nat ?n) prompt) \<le> max_tokens" .
  then show ?thesis
    using res by (simp add: take_is_prefix)
qed

theorem optimize_prompt_fits_witness:
  "(0 :: int) \<le> 2 \<and> 0 < token_buffer (init None 0) \<and> token_buffer (init None 0) \<le> 1
   \<and> optimize_prompt (init None 0) ''Audit report'' 2 = Inr ''Audit r''
   \<and> (\<exists>r. optimize_prompt (init None 0) ''Audit report'' 2 = Inr r
          \<and> prefix r ''Audit report'' \<and> estimate_tokens r \<le> 2)"
proof -
  have tb: "token_buffer (init None 0) = 9 / 10"
    by (simp add: init_def get_default_def empty_config_def)
  have run: "optimize_prompt (init None 0) ''Audit report'' 2 = Inr ''Audit r''"
    by (simp add: optimize_prompt_def estimate_tokens_def truncate_length_def prompt_ratio_def
        py_int_def py_slice_to_def tb)
  show ?thesis
    using optimize_prompt_fits [of 2 "init None 0" "''Audit report''"] run
    by (simp add: tb)
qed

subsection \<open>The word-count factor\<close>

text \<open>
  Claim C9. When the \<^verbatim>\<open>content\<close> section exists, the word-count block adds
  0.8 to the score if the word count (0 when absent) is above 1000, otherwise
  0.6 if it is below 300, and nothing for a word count from 300 to 1000
  inclusive; it never adds both, and it counts as one factor. With no
  paragraph count the content sub-score is therefore that one addition.
\<close>

theorem word_count_factor:
  assumes "content content_data = Some c"
  shows "content_length_block content_data (score, factors) =
           (score + (if get_default (word_count c) 0 > 1000 then 0.8
                     else if get_default (word_count c) 0 < 300 then 0.6
                     else 0),
            factors + 1)
       \<and> (300 \<le> get_default (word_count c) 0 \<and> get_default (word_count c) 0 \<le> 1000 \<longrightarrow>
            content_length_block content_data (score, factors) = (score, factors + 1))
       \<and> (paragraphs c = None \<longrightarrow>
            calculate_content_complexity content_data =
              (if get_default (word_count c) 0 > 1000 then 0.8
               else if get_default (word_count c) 0 < 300 then 0.6
               else 0))"
  using assms
  by (simp add: content_length_block_def calculate_content_complexity_def structure_block_def
      finish_def get_default_def Let_def)

theorem word_count_factor_witness:
  "content \<lparr>content = Some \<lparr>word_count = Some 1500, paragraphs = None\<rparr>\<rparr>
     = Some \<lparr>word_count = Some 1500, paragraphs = None\<rparr>
   \<and> content_length_block \<lparr>content = Some \<lparr>word_count = Some 1500, paragraphs = None\<rparr>\<rparr> (0, 0)
       = (0.8, 1)
   \<and> content_length_block \<lparr>content = Some \<lparr>word_count = Some 120, paragraphs = None\<rparr>\<rparr> (0, 0)
       = (0.6, 1)
   \<and> 300 \<le> get_default (word_count \<lparr>word_count = Some 300, paragraphs = None\<rparr>) 0
   \<and> get_default (word_count \<lparr>word_count = Some 1000, paragraphs = None\<rparr>) 0 \<le> 1000
   \<and> content_length_block \<lparr>content = Some \<lparr>word_count = Some 300, paragraphs = None\<rparr>\<rparr> (0, 0)
       = (0, 1)
   \<and> content_length_block \<lparr>content = Some \<lparr>word_count = Some 1000, paragraphs = None\<rparr>\<rparr> (0, 0)
       = (0, 1)
   \<and> calculate_content_complexity
         \<lparr>content = Some \<lparr>word_count = Some 1500, paragraphs = None\<rparr>\<rparr> = 0.8
   \<and> calculate_content_complexity
         \<lparr>content = Some \<lparr>word_count = None, paragraphs = None\<rparr>\<rparr> = 0.6"
  using word_count_factor [of "\<lparr>content = Some \<lparr>word_count = Some 1500, paragraphs = None\<rparr>\<rparr>"
      "\<lparr>word_count = Some 1500, paragraphs = None\<rparr>" 0 0]
    word_count_factor [of "\<lparr>content = Some \<lparr>word_count = Some 120, paragraphs = None\<rparr>\<rparr>"
      "\<lparr>word_count = Some 120, paragraphs = None\<rparr>" 0 0]
    word_count_factor [of "\<lparr>content = Some \<lparr>word_count = Some 300, paragraphs = None\<rparr>\<rparr>"
      "\<lparr>word_count = Some 300, paragraphs = None\<rparr>" 0 0]
    word_count_factor [of "\<lparr>content = Some \<lparr>word_count = Some 1000, paragraphs = None\<rparr>\<rparr>"
      "\<lparr>word_count = Some 1000, paragraphs = None\<rparr>" 0 0]
    word_count_factor [of "\<lparr>content = Some \<lparr>word_count = None, paragraphs = None\<rparr>\<rparr>"
      "\<lparr>word_count = None, paragraphs = None\<rparr>" 0 0]
  by (simp add: get_default_def)

end
